theory Spec2Isabelle
  imports Main
begin

section \<open>Configuration (the package-level variables of main.go)\<close>

text \<open>
  The tunables are Go package variables (\<^verbatim>\<open>var ( ... )\<close>), so they are a value that
  every function reads. Go's \<^verbatim>\<open>int\<close> is modelled as \<^typ>\<open>int\<close>: the only arithmetic
  on these values is the loop increment \<^verbatim>\<open>i++\<close> below a bound, which cannot overflow.
\<close>

record config =
  GrpcConnPoolSize :: int
  MaxConnsPerHost :: int
  MaxIdelConnsPerHost :: int
  NumOfWorker :: int
  NumOfReadCallPerWorker :: int
  BucketName :: string
  ProjectName :: string
  ObjectNamePrefix :: string
  ObjectNameSuffix :: string

definition default_config :: config where
  "default_config =
     \<lparr> GrpcConnPoolSize = 1,
       MaxConnsPerHost = 100,
       MaxIdelConnsPerHost = 100,
       NumOfWorker = 48,
       NumOfReadCallPerWorker = 800,
       BucketName = ''golang-grpc-test-princer-gcsfuse-us-central'',
       ProjectName = ''gcs-fuse-test'',
       ObjectNamePrefix = ''50mb/1_thread.'',
       ObjectNameSuffix = ''.0'' \<rparr>"

section \<open>strconv.Itoa\<close>

text \<open>
  \<^verbatim>\<open>strconv.Itoa\<close> is the Go standard library's base-10 formatter: the digits of the
  absolute value, most significant first, after a minus sign for a negative number.
\<close>

definition digit_char :: "nat \<Rightarrow> char" where
  "digit_char d = char_of (48 + d)"

function format_nat :: "nat \<Rightarrow> string" where
  "format_nat n =
     (if n < 10 then [digit_char n]
      else format_nat (n div 10) @ [digit_char (n mod 10)])"
  by pat_completeness auto
termination
  by (relation "measure (\<lambda>n. n)") auto

declare format_nat.simps [simp del]

definition Itoa :: "int \<Rightarrow> string" where
  "Itoa i = (if i < 0 then CHR ''-'' # format_nat (nat (- i)) else format_nat (nat i))"



section \<open>ReadObject\<close>

text \<open>
  Line 116: \<^verbatim>\<open>objectName := ObjectNamePrefix + strconv.Itoa(workerId) + ObjectNameSuffix\<close>.
\<close>

definition objectName :: "config \<Rightarrow> int \<Rightarrow> string" where
  "objectName c workerId = ObjectNamePrefix c @ Itoa workerId @ ObjectNameSuffix c"

text \<open>
  What the storage service does on one pass of the loop body is not decided by the
  program, so it is an input: either \<^verbatim>\<open>NewReader\<close> returns an error, or the reader
  opens and \<^verbatim>\<open>io.Copy\<close> returns an error, or both succeed and \<^verbatim>\<open>time.Since(start)\<close>
  yields a duration (in nanoseconds). Go errors are modelled by their message.
\<close>

datatype read_outcome = OpenFails string | CopyFails string | ReadOk int

text \<open>
  The observable actions of the program, in the order they happen. \<open>EvPrintDuration\<close>
  is the line written by \<^verbatim>\<open>fmt.Println(duration)\<close>; \<open>EvPrintln\<close> is any other line on
  standard output; \<open>EvStderr\<close> is text written to standard error; \<open>EvLogFatal\<close> is the
  message of a \<^verbatim>\<open>log.Fatalf\<close>.
\<close>

datatype event =
    EvNewReader string
  | EvCopy
  | EvPrintDuration int
  | EvClose
  | EvSetRetry
  | EvBucketCreate string string
  | EvGo int
  | EvPrintln string
  | EvStderr string
  | EvLogFatal string

text \<open>
  Lines 119-134, the body of the loop: one full read of the object. The three ways
  out of the body are the two \<^verbatim>\<open>return fmt.Errorf(...)\<close> and falling through to
  \<^verbatim>\<open>rc.Close()\<close>, whose own result the program drops. The result is the actions
  performed and the error returned (\<open>None\<close> when the body falls through).
\<close>

definition read_once :: "string \<Rightarrow> read_outcome \<Rightarrow> event list \<times> string option" where
  "read_once name r =
     (case r of
        OpenFails e \<Rightarrow>
          ([EvNewReader name], Some (''while creating reader object: '' @ e))
      | CopyFails e \<Rightarrow>
          ([EvNewReader name, EvCopy],
           Some (''while reading and discarding content: '' @ e))
      | ReadOk d \<Rightarrow>
          ([EvNewReader name, EvCopy, EvPrintDuration d, EvClose], None))"

text \<open>
  Lines 118-137. The loop \<^verbatim>\<open>for i := 0; i < NumOfReadCallPerWorker; i++\<close> is the
  recursion on \<open>i\<close>; an error from the body ends it at once. \<open>rd k\<close> is what the
  service does on pass \<open>k\<close>.
\<close>

function ReadObject_loop ::
  "config \<Rightarrow> (nat \<Rightarrow> read_outcome) \<Rightarrow> string \<Rightarrow> int \<Rightarrow> event list \<times> string option" where
  "ReadObject_loop c rd name i =
     (if i < NumOfReadCallPerWorker c then
        (case read_once name (rd (nat i)) of
           (tr, Some e) \<Rightarrow> (tr, Some e)
         | (tr, None) \<Rightarrow>
             (case ReadObject_loop c rd name (i + 1) of
                (tr', err) \<Rightarrow> (tr @ tr', err)))
      else ([], None))"
  by pat_completeness auto
termination
  by (relation "measure (\<lambda>(c, rd, name, i). nat (NumOfReadCallPerWorker c - i))") auto

declare ReadObject_loop.simps [simp del]

text \<open>
  The bucket handle stands for the service: for each object name, what each
  successive read of it does.
\<close>

type_synonym bucket_handle = "string \<Rightarrow> nat \<Rightarrow> read_outcome"

definition ReadObject :: "config \<Rightarrow> int \<Rightarrow> bucket_handle \<Rightarrow> event list \<times> string option" where
  "ReadObject c workerId bucketHandle =
     ReadObject_loop c (bucketHandle (objectName c workerId)) (objectName c workerId) 0"

text \<open>Counting the actions of one kind in a run.\<close>

fun is_open :: "event \<Rightarrow> bool" where
  "is_open (EvNewReader _) = True"
| "is_open _ = False"

fun is_close :: "event \<Rightarrow> bool" where
  "is_close EvClose = True"
| "is_close _ = False"

fun is_duration_line :: "event \<Rightarrow> bool" where
  "is_duration_line (EvPrintDuration _) = True"
| "is_duration_line _ = False"

definition count_ev :: "(event \<Rightarrow> bool) \<Rightarrow> event list \<Rightarrow> nat" where
  "count_ev P tr = length (filter P tr)"

fun is_ok :: "read_outcome \<Rightarrow> bool" where
  "is_ok (ReadOk _) = True"
| "is_ok _ = False"

section \<open>The world outside the program\<close>

text \<open>
  A \<^verbatim>\<open>*storage.Client\<close> is a pointer: \<open>None\<close> is \<^verbatim>\<open>nil\<close>. The client value
  records the option it was built with.
\<close>

record transport =
  t_MaxConnsPerHost :: int
  t_MaxIdleConnsPerHost :: int
  t_DisableKeepAlives :: bool
  t_ForceAttemptHTTP2 :: bool
  t_HTTP2Disabled :: bool

datatype client_option = WithHTTPClient transport string | WithGRPCConnectionPool int

datatype client = Client client_option

type_synonym environ = "string \<rightharpoonup> string"

text \<open>
  Everything the program asks of its collaborators is an input. \<open>GetTokenSource\<close>,
  \<open>NewClient\<close> and \<open>BucketCreate\<close> give the error a call returns (\<open>None\<close> for
  \<^verbatim>\<open>nil\<close>); \<open>NewClient\<close> gives the returned pointer as well, and may look at the
  process environment. \<open>Setenv_err\<close> and \<open>Unsetenv_err\<close> give the error of the
  call for a key. \<open>finish_rank\<close> orders the goroutines by the moment they return.
\<close>

record world =
  clientProtocol :: string
  os_environ :: environ
  GetTokenSource :: "string option"
  NewClient :: "environ \<Rightarrow> client_option \<Rightarrow> client option \<times> string option"
  Setenv_err :: "string \<Rightarrow> string option"
  Unsetenv_err :: "string \<Rightarrow> string option"
  BucketCreate :: "string option"
  bucket :: bucket_handle
  finish_rank :: "int \<Rightarrow> nat"

text \<open>
  A call either returns a value or ends the process: \<^verbatim>\<open>log.Fatalf\<close> writes its
  message and calls \<^verbatim>\<open>os.Exit(1)\<close>; a nil pointer dereference panics.
\<close>

datatype 'a proc = Ret 'a | Fatal string | Panic string

section \<open>CreateHttpClient and CreateGrpcClient\<close>

text \<open>Lines 49-91.\<close>

definition CreateHttpClient :: "config \<Rightarrow> world \<Rightarrow> bool \<Rightarrow> client option \<times> string option" where
  "CreateHttpClient c w isHttp2 =
     (let transport =
            (if isHttp2 = False then
               \<lparr> t_MaxConnsPerHost = MaxConnsPerHost c,
                 t_MaxIdleConnsPerHost = MaxIdelConnsPerHost c,
                 t_DisableKeepAlives = False,
                 t_ForceAttemptHTTP2 = False,
                 t_HTTP2Disabled = True \<rparr>
             else
               \<lparr> t_MaxConnsPerHost = MaxConnsPerHost c,
                 t_MaxIdleConnsPerHost = 0,
                 t_DisableKeepAlives = True,
                 t_ForceAttemptHTTP2 = True,
                 t_HTTP2Disabled = False \<rparr>)
      in (case GetTokenSource w of
            Some e \<Rightarrow> (None, Some (''while generating tokenSource, '' @ e))
          | None \<Rightarrow> NewClient w (os_environ w) (WithHTTPClient transport ''prince'')))"

text \<open>
  \<^verbatim>\<open>os.Setenv\<close> and \<^verbatim>\<open>os.Unsetenv\<close>: on success the variable is bound, or removed.
\<close>

definition os_Setenv :: "world \<Rightarrow> string \<Rightarrow> string \<Rightarrow> environ \<Rightarrow> string + environ" where
  "os_Setenv w k v env = (case Setenv_err w k of Some e \<Rightarrow> Inl e | None \<Rightarrow> Inr (env(k \<mapsto> v)))"

definition os_Unsetenv :: "world \<Rightarrow> string \<Rightarrow> environ \<Rightarrow> string + environ" where
  "os_Unsetenv w k env = (case Unsetenv_err w k of Some e \<Rightarrow> Inl e | None \<Rightarrow> Inr (env(k := None)))"

text \<open>
  Lines 93-112. The function returns only at its last line; each of the four checks
  ends the process instead. The result carries the environment at the return.
\<close>

definition CreateGrpcClient ::
  "config \<Rightarrow> world \<Rightarrow> environ \<Rightarrow> (environ \<times> client option \<times> string option) proc" where
  "CreateGrpcClient c w env =
     (case os_Setenv w ''STORAGE_USE_GRPC'' ''gRPC'' env of
        Inl e \<Rightarrow> Fatal (''error setting grpc env var: '' @ e)
      | Inr env1 \<Rightarrow>
     (case os_Setenv w ''GOOGLE_CLOUD_ENABLE_DIRECT_PATH_XDS'' ''true'' env1 of
        Inl e \<Rightarrow> Fatal (''error setting direct path env var: '' @ e)
      | Inr env2 \<Rightarrow>
     (case NewClient w env2 (WithGRPCConnectionPool (GrpcConnPoolSize c)) of
        (client, err) \<Rightarrow>
     (case os_Unsetenv w ''STORAGE_USE_GRPC'' env2 of
        Inl e \<Rightarrow> Fatal (''error while unsetting grpc env var: '' @ e)
      | Inr env3 \<Rightarrow>
     (case os_Unsetenv w ''GOOGLE_CLOUD_ENABLE_DIRECT_PATH_XDS'' env3 of
        Inl e \<Rightarrow> Fatal (''error while unsetting direct path env var: '' @ e)
      | Inr env4 \<Rightarrow> Ret (env4, client, err))))))"

section \<open>main\<close>

text \<open>
  \<^verbatim>\<open>fmt.Errorf\<close> builds an error value and does nothing else. At lines 155 and 169
  the value is not used.
\<close>

definition Errorf :: "string \<Rightarrow> string \<Rightarrow> string" where
  "Errorf prefix e = prefix @ e"

text \<open>Lines 146-152.\<close>

definition create_client ::
  "config \<Rightarrow> world \<Rightarrow> (environ \<times> client option \<times> string option) proc" where
  "create_client c w =
     (if clientProtocol w = ''http'' then
        (case CreateHttpClient c w False of (client, err) \<Rightarrow> Ret (os_environ w, client, err))
      else CreateGrpcClient c w (os_environ w))"

text \<open>
  Lines 173-181, the function handed to \<^verbatim>\<open>eG.Go\<close>, with \<open>idx\<close> the value of the
  loop variable of the pass that launched it.
\<close>

definition task :: "config \<Rightarrow> int \<Rightarrow> bucket_handle \<Rightarrow> event list \<times> string option" where
  "task c idx bucketHandle =
     (case ReadObject c idx bucketHandle of
        (tr, Some e) \<Rightarrow> (tr, Some (Errorf ''while reading object: '' e))
      | (tr, None) \<Rightarrow> (tr, None))"

text \<open>Line 172: the indices for which \<^verbatim>\<open>eG.Go\<close> is called, in order.\<close>

function launch :: "config \<Rightarrow> int \<Rightarrow> int list" where
  "launch c i = (if i < NumOfWorker c then i # launch c (i + 1) else [])"
  by pat_completeness auto
termination
  by (relation "measure (\<lambda>(c, i). nat (NumOfWorker c - i))") auto

declare launch.simps [simp del]

text \<open>
  \<^verbatim>\<open>errgroup.Group.Wait\<close> blocks until every function given to \<^verbatim>\<open>Go\<close> has
  returned, and returns the first non-nil error among them, if any. The argument is
  the list of returned values in the order the goroutines returned.
\<close>

fun eG_Wait :: "string option list \<Rightarrow> string option" where
  "eG_Wait [] = None"
| "eG_Wait (None # rs) = eG_Wait rs"
| "eG_Wait (Some e # rs) = Some e"

text \<open>Lines 186-190.\<close>

definition report :: "string option \<Rightarrow> event list" where
  "report err =
     (case err of
        None \<Rightarrow> [EvPrintln ''Read benchmark completed successfully!'']
      | Some e \<Rightarrow> [EvStderr (''Error while running benchmark: '' @ e)])"

text \<open>How the process ends: \<^verbatim>\<open>main\<close> returns, a \<^verbatim>\<open>log.Fatalf\<close> exits with
  status 1, or a nil pointer dereference panics.\<close>

datatype status = Returned | Exit1 | NilPanic

text \<open>
  \<^verbatim>\<open>(*storage.Client).SetRetry\<close> reads and writes a field of its receiver, so on a
  nil receiver it panics; otherwise it returns.
\<close>

definition SetRetry :: "client option \<Rightarrow> client proc" where
  "SetRetry client =
     (case client of
        None \<Rightarrow> Panic ''invalid memory address or nil pointer dereference''
      | Some cl \<Rightarrow> Ret cl)"

text \<open>
  Lines 140-191. The goroutines are run one after the other in the order in which
  they return (\<open>sort_key (finish_rank w)\<close>), each from start to end: the lines of
  different workers are not interleaved here, each goroutine's use of \<^verbatim>\<open>err\<close>
  sees its own value, and \<^verbatim>\<open>idx := i\<close> reads the index of the pass that launched
  the goroutine.
\<close>

definition main :: "config \<Rightarrow> world \<Rightarrow> event list \<times> status" where
  "main c w =
     (case create_client c w of
        Fatal m \<Rightarrow> ([EvLogFatal m], Exit1)
      | Panic m \<Rightarrow> ([], NilPanic)
      | Ret (env, client, err) \<Rightarrow>
          (let _ = (case err of Some e \<Rightarrow> Some (Errorf ''while creating the client: '' e)
                    | None \<Rightarrow> None)
           in (case SetRetry client of
                 Panic m \<Rightarrow> ([EvSetRetry], NilPanic)
               | Fatal m \<Rightarrow> ([EvSetRetry, EvLogFatal m], Exit1)
               | Ret cl \<Rightarrow>
                   (let err = BucketCreate w;
                        _ = (case err of Some e \<Rightarrow> Some (Errorf ''while creating the bucket: '' e)
                             | None \<Rightarrow> None);
                        idxs = launch c 0;
                        runs = map (\<lambda>idx. task c idx (bucket w)) (sort_key (finish_rank w) idxs);
                        err = eG_Wait (map snd runs)
                    in ([EvSetRetry, EvBucketCreate (BucketName c) (ProjectName c)]
                          @ map EvGo idxs @ concat (map fst runs) @ report err,
                        Returned)))))"


section \<open>Concrete inputs\<close>

text \<open>A service on which the second read of every object breaks off mid-stream.\<close>

definition second_read_fails :: bucket_handle where
  "second_read_fails name k = (if k = 1 then CopyFails ''connection reset'' else ReadOk 5)"


text \<open>
  A run with \<^verbatim>\<open>--client-protocol\<close> left at \<^verbatim>\<open>http\<close> in which every collaborator
  succeeds, every read takes 5 ns and shard 0 finishes first.
\<close>

definition quiet_world :: world where
  "quiet_world =
     \<lparr> clientProtocol = ''http'',
       os_environ = Map.empty,
       GetTokenSource = None,
       NewClient = (\<lambda>env opt. (Some (Client opt), None)),
       Setenv_err = (\<lambda>k. None),
       Unsetenv_err = (\<lambda>k. None),
       BucketCreate = None,
       bucket = (\<lambda>name k. ReadOk 5),
       finish_rank = (\<lambda>i. nat i) \<rparr>"

text \<open>Two workers of three reads each.\<close>

definition small_config :: config where
  "small_config = default_config \<lparr> NumOfWorker := 2, NumOfReadCallPerWorker := 3 \<rparr>"


section \<open>Facts about \<open>Itoa\<close>\<close>








section \<open>Facts about the read loop\<close>

lemma read_once_ok: "is_ok r \<Longrightarrow> snd (read_once name r) = None
   \<and> count_ev is_open (fst (read_once name r)) = 1
   \<and> count_ev is_duration_line (fst (read_once name r)) = 1
   \<and> count_ev is_close (fst (read_once name r)) = 1"
  by (cases r) (simp_all add: read_once_def count_ev_def)

lemma read_once_fail: "\<not> is_ok r \<Longrightarrow> snd (read_once name r) \<noteq> None
   \<and> count_ev is_open (fst (read_once name r)) = 1
   \<and> count_ev is_duration_line (fst (read_once name r)) = 0
   \<and> count_ev is_close (fst (read_once name r)) = 0"
  by (cases r) (simp_all add: read_once_def count_ev_def)

lemma count_ev_append: "count_ev P (xs @ ys) = count_ev P xs + count_ev P ys"
  by (simp add: count_ev_def)

lemma loop_done: "\<not> i < NumOfReadCallPerWorker c \<Longrightarrow> ReadObject_loop c rd name i = ([], None)"
  by (simp add: ReadObject_loop.simps [of c rd name i])

lemma loop_step_ok:
  assumes "i < NumOfReadCallPerWorker c" and "is_ok (rd (nat i))"
  shows "ReadObject_loop c rd name i =
     (fst (read_once name (rd (nat i))) @ fst (ReadObject_loop c rd name (i + 1)),
      snd (ReadObject_loop c rd name (i + 1)))"
proof -
  from assms(2) have "snd (read_once name (rd (nat i))) = None"
    by (simp add: read_once_ok)
  then obtain tr where ro: "read_once name (rd (nat i)) = (tr, None)"
    by (metis prod.collapse)
  show ?thesis
    using assms(1) by (subst ReadObject_loop.simps) (simp add: ro split: prod.splits)
qed

lemma loop_step_fail:
  "i < NumOfReadCallPerWorker c \<Longrightarrow> \<not> is_ok (rd (nat i)) \<Longrightarrow>
   ReadObject_loop c rd name i = read_once name (rd (nat i))"
  using read_once_fail [of "rd (nat i)" name]
  by (subst ReadObject_loop.simps) (auto split: prod.splits option.splits)

lemma loop_all_ok:
  "0 \<le> i \<Longrightarrow> (\<forall>k. nat i \<le> k \<and> int k < NumOfReadCallPerWorker c \<longrightarrow> is_ok (rd k)) \<Longrightarrow>
   snd (ReadObject_loop c rd name i) = None
   \<and> count_ev is_open (fst (ReadObject_loop c rd name i)) = nat (NumOfReadCallPerWorker c - i)
   \<and> count_ev is_duration_line (fst (ReadObject_loop c rd name i)) = nat (NumOfReadCallPerWorker c - i)
   \<and> count_ev is_close (fst (ReadObject_loop c rd name i)) = nat (NumOfReadCallPerWorker c - i)"
proof (induction c rd name i rule: ReadObject_loop.induct)
  case (1 c rd name i)
  show ?case
  proof (cases "i < NumOfReadCallPerWorker c")
    case False
    then show ?thesis by (simp add: loop_done count_ev_def)
  next
    case True
    with "1.prems" have ok: "is_ok (rd (nat i))" by simp
    have ro: "read_once name (rd (nat i)) = (fst (read_once name (rd (nat i))), None)"
      using read_once_ok [OF ok, of name] by (metis prod.collapse)
    have IH: "snd (ReadObject_loop c rd name (i + 1)) = None
      \<and> count_ev is_open (fst (ReadObject_loop c rd name (i + 1))) = nat (NumOfReadCallPerWorker c - (i + 1))
      \<and> count_ev is_duration_line (fst (ReadObject_loop c rd name (i + 1))) = nat (NumOfReadCallPerWorker c - (i + 1))
      \<and> count_ev is_close (fst (ReadObject_loop c rd name (i + 1))) = nat (NumOfReadCallPerWorker c - (i + 1))"
    proof (rule "1.IH" [OF True ro [symmetric] refl])
      show "0 \<le> i + 1" using "1.prems" by simp
      show "\<forall>k. nat (i + 1) \<le> k \<and> int k < NumOfReadCallPerWorker c \<longrightarrow> is_ok (rd k)"
        using "1.prems" by auto
    qed
    have n: "nat (NumOfReadCallPerWorker c - i) = Suc (nat (NumOfReadCallPerWorker c - (i + 1)))"
      using True by simp
    show ?thesis
      using IH read_once_ok [OF ok, of name]
      by (simp add: loop_step_ok [of i c rd name, OF True ok] count_ev_append n)
  qed
qed

lemma loop_first_fail:
  "0 \<le> i \<Longrightarrow> nat i \<le> k \<Longrightarrow> int k < NumOfReadCallPerWorker c \<Longrightarrow>
   (\<forall>j. nat i \<le> j \<and> j < k \<longrightarrow> is_ok (rd j)) \<Longrightarrow> \<not> is_ok (rd k) \<Longrightarrow>
   snd (ReadObject_loop c rd name i) = snd (read_once name (rd k))
   \<and> count_ev is_open (fst (ReadObject_loop c rd name i)) = k - nat i + 1
   \<and> count_ev is_duration_line (fst (ReadObject_loop c rd name i)) = k - nat i
   \<and> count_ev is_close (fst (ReadObject_loop c rd name i)) = k - nat i"
proof (induction c rd name i rule: ReadObject_loop.induct)
  case (1 c rd name i)
  from "1.prems" have lt: "i < NumOfReadCallPerWorker c" by linarith
  show ?case
  proof (cases "k = nat i")
    case True
    with "1.prems" have bad: "\<not> is_ok (rd (nat i))" by simp
    show ?thesis
      using read_once_fail [OF bad, of name] True
      by (simp add: loop_step_fail [of i c rd name, OF lt bad])
  next
    case False
    with "1.prems" have ok: "is_ok (rd (nat i))" and k: "nat (i + 1) \<le> k" by auto
    have ro: "read_once name (rd (nat i)) = (fst (read_once name (rd (nat i))), None)"
      using read_once_ok [OF ok, of name] by (metis prod.collapse)
    have IH: "snd (ReadObject_loop c rd name (i + 1)) = snd (read_once name (rd k))
      \<and> count_ev is_open (fst (ReadObject_loop c rd name (i + 1))) = k - nat (i + 1) + 1
      \<and> count_ev is_duration_line (fst (ReadObject_loop c rd name (i + 1))) = k - nat (i + 1)
      \<and> count_ev is_close (fst (ReadObject_loop c rd name (i + 1))) = k - nat (i + 1)"
    proof (rule "1.IH" [OF lt ro [symmetric] refl])
      show "0 \<le> i + 1" using "1.prems" by simp
      show "nat (i + 1) \<le> k" by (rule k)
      show "int k < NumOfReadCallPerWorker c" using "1.prems" by simp
      show "\<forall>j. nat (i + 1) \<le> j \<and> j < k \<longrightarrow> is_ok (rd j)" using "1.prems" by auto
      show "\<not> is_ok (rd k)" using "1.prems" by simp
    qed
    have n: "k - nat i = Suc (k - nat (i + 1))"
      using k "1.prems" by linarith
    show ?thesis
      using IH read_once_ok [OF ok, of name]
      by (simp add: loop_step_ok [of i c rd name, OF lt ok] count_ev_append n)
  qed
qed







section \<open>Facts about the task and the coordinator\<close>












section \<open>Properties of the program\<close>

text \<open>
  C1. The claim is that a read closes its stream exactly once whenever the open
  succeeded, also when draining fails. The code closes only on the path where
  draining succeeded: a read whose \<^verbatim>\<open>io.Copy\<close> fails opens the stream, returns at
  line 128 and never calls \<^verbatim>\<open>rc.Close()\<close>, while a read that succeeds closes once.
  With a service whose second read breaks off, a worker opens two streams and
  closes one.
\<close>

theorem drain_failure_skips_close:
  "fst (read_once name (CopyFails e)) = [EvNewReader name, EvCopy]
   \<and> count_ev is_open (fst (read_once name (CopyFails e))) = 1
   \<and> count_ev is_close (fst (read_once name (CopyFails e))) = 0
   \<and> count_ev is_close (fst (read_once name (ReadOk d))) = 1
   \<and> count_ev is_open (fst (ReadObject default_config 0 second_read_fails)) = 2
   \<and> count_ev is_close (fst (ReadObject default_config 0 second_read_fails)) = 1"
proof -
  have "count_ev is_open (fst (ReadObject_loop default_config
            (second_read_fails (objectName default_config 0)) (objectName default_config 0) 0))
          = 1 - nat 0 + 1
      \<and> count_ev is_close (fst (ReadObject_loop default_config
            (second_read_fails (objectName default_config 0)) (objectName default_config 0) 0))
          = 1 - nat 0"
    using loop_first_fail [of 0 1 default_config "second_read_fails (objectName default_config 0)"
        "objectName default_config 0"]
    by (simp add: default_config_def second_read_fails_def)
  then show ?thesis
    by (simp add: ReadObject_def read_once_def count_ev_def)
qed

text \<open>
  C2. The claim is that a failed client construction takes the coordinator straight
  to its failed end with the construction error. In the code the error is dropped:
  with a failing token source, or a failing gRPC client constructor, nothing is
  written to standard error or the log, \<^verbatim>\<open>SetRetry\<close> is called, and the process
  ends in a nil pointer dereference instead of returning.
\<close>

theorem client_error_not_reported:
  "main default_config (quiet_world \<lparr> GetTokenSource := Some ''metadata server unreachable'' \<rparr>)
     = ([EvSetRetry], NilPanic)
   \<and> main default_config
        (quiet_world \<lparr> clientProtocol := ''grpc'',
                        NewClient := (\<lambda>env opt. (None, Some ''dial failed'')) \<rparr>)
     = ([EvSetRetry], NilPanic)"
  by (simp add: main_def SetRetry_def create_client_def CreateHttpClient_def CreateGrpcClient_def
      os_Setenv_def os_Unsetenv_def quiet_world_def)

text \<open>
  C4. The claim is that a provisioning failure other than "already exists" stops the
  coordinator before any worker is launched. In the code the error of
  \<^verbatim>\<open>bucketHandle.Create\<close> is dropped whatever it is (lines 168-170 only build a
  message), so the run is the same as with no error: with a create call that is
  refused, both workers are launched, do all their reads, and the run reports
  success.
\<close>

theorem provision_error_ignored:
  "main c (w \<lparr> BucketCreate := err \<rparr>) = main c w
   \<and> main small_config (quiet_world \<lparr> BucketCreate := Some ''googleapi: Error 403: Forbidden'' \<rparr>)
     = ([EvSetRetry,
         EvBucketCreate ''golang-grpc-test-princer-gcsfuse-us-central'' ''gcs-fuse-test'',
         EvGo 0, EvGo 1,
         EvNewReader ''50mb/1_thread.0.0'', EvCopy, EvPrintDuration 5, EvClose,
         EvNewReader ''50mb/1_thread.0.0'', EvCopy, EvPrintDuration 5, EvClose,
         EvNewReader ''50mb/1_thread.0.0'', EvCopy, EvPrintDuration 5, EvClose,
         EvNewReader ''50mb/1_thread.1.0'', EvCopy, EvPrintDuration 5, EvClose,
         EvNewReader ''50mb/1_thread.1.0'', EvCopy, EvPrintDuration 5, EvClose,
         EvNewReader ''50mb/1_thread.1.0'', EvCopy, EvPrintDuration 5, EvClose,
         EvPrintln ''Read benchmark completed successfully!''],
        Returned)"
proof
  have s: "os_Setenv (w \<lparr> BucketCreate := err \<rparr>) = os_Setenv w"
    and u: "os_Unsetenv (w \<lparr> BucketCreate := err \<rparr>) = os_Unsetenv w"
    by (simp_all add: os_Setenv_def os_Unsetenv_def fun_eq_iff)
  have "create_client c (w \<lparr> BucketCreate := err \<rparr>) = create_client c w"
    by (simp add: create_client_def CreateHttpClient_def CreateGrpcClient_def s u
        split: option.splits sum.splits prod.splits)
  then show "main c (w \<lparr> BucketCreate := err \<rparr>) = main c w"
    by (simp add: main_def split: proc.splits prod.splits)
  show "main small_config (quiet_world \<lparr> BucketCreate := Some ''googleapi: Error 403: Forbidden'' \<rparr>)
     = ([EvSetRetry,
         EvBucketCreate ''golang-grpc-test-princer-gcsfuse-us-central'' ''gcs-fuse-test'',
         EvGo 0, EvGo 1,
         EvNewReader ''50mb/1_thread.0.0'', EvCopy, EvPrintDuration 5, EvClose,
         EvNewReader ''50mb/1_thread.0.0'', EvCopy, EvPrintDuration 5, EvClose,
         EvNewReader ''50mb/1_thread.0.0'', EvCopy, EvPrintDuration 5, EvClose,
         EvNewReader ''50mb/1_thread.1.0'', EvCopy, EvPrintDuration 5, EvClose,
         EvNewReader ''50mb/1_thread.1.0'', EvCopy, EvPrintDuration 5, EvClose,
         EvNewReader ''50mb/1_thread.1.0'', EvCopy, EvPrintDuration 5, EvClose,
         EvPrintln ''Read benchmark completed successfully!''],
        Returned)"
    by code_simp
qed




text \<open>
  C6. A worker makes exactly \<open>NumOfReadCallPerWorker\<close> read attempts, one after the
  other, when all of them succeed, and prints one duration line for each. When read
  number \<open>k\<close> (counting from 0) is the first to fail, the worker returns the error of
  that read at once: it has made \<open>k + 1\<close> attempts and printed \<open>k\<close> duration
  lines, one for each read that succeeded before the failure.
\<close>

theorem ReadObject_reads:
  fixes c :: config and workerId :: int and bucketHandle :: bucket_handle
  defines "rd \<equiv> bucketHandle (objectName c workerId)"
  defines "run \<equiv> ReadObject c workerId bucketHandle"
  shows "((\<forall>k. int k < NumOfReadCallPerWorker c \<longrightarrow> is_ok (rd k)) \<longrightarrow>
            snd run = None
          \<and> count_ev is_open (fst run) = nat (NumOfReadCallPerWorker c)
          \<and> count_ev is_duration_line (fst run) = nat (NumOfReadCallPerWorker c))
       \<and> (\<forall>k. int k < NumOfReadCallPerWorker c \<and> (\<forall>j<k. is_ok (rd j)) \<and> \<not> is_ok (rd k) \<longrightarrow>
            snd run = snd (read_once (objectName c workerId) (rd k))
          \<and> snd run \<noteq> None
          \<and> count_ev is_open (fst run) = k + 1
          \<and> count_ev is_duration_line (fst run) = k)"
proof (intro conjI impI allI)
  assume a: "\<forall>k. int k < NumOfReadCallPerWorker c \<longrightarrow> is_ok (rd k)"
  have "snd (ReadObject_loop c rd (objectName c workerId) 0) = None
    \<and> count_ev is_open (fst (ReadObject_loop c rd (objectName c workerId) 0)) = nat (NumOfReadCallPerWorker c - 0)
    \<and> count_ev is_duration_line (fst (ReadObject_loop c rd (objectName c workerId) 0)) = nat (NumOfReadCallPerWorker c - 0)
    \<and> count_ev is_close (fst (ReadObject_loop c rd (objectName c workerId) 0)) = nat (NumOfReadCallPerWorker c - 0)"
    by (rule loop_all_ok) (use a in auto)
  then show "snd run = None"
    and "count_ev is_open (fst run) = nat (NumOfReadCallPerWorker c)"
    and "count_ev is_duration_line (fst run) = nat (NumOfReadCallPerWorker c)"
    by (simp_all add: run_def ReadObject_def rd_def)
next
  fix k
  assume a: "int k < NumOfReadCallPerWorker c \<and> (\<forall>j<k. is_ok (rd j)) \<and> \<not> is_ok (rd k)"
  have "snd (ReadObject_loop c rd (objectName c workerId) 0) = snd (read_once (objectName c workerId) (rd k))
    \<and> count_ev is_open (fst (ReadObject_loop c rd (objectName c workerId) 0)) = k - nat 0 + 1
    \<and> count_ev is_duration_line (fst (ReadObject_loop c rd (objectName c workerId) 0)) = k - nat 0
    \<and> count_ev is_close (fst (ReadObject_loop c rd (objectName c workerId) 0)) = k - nat 0"
    by (rule loop_first_fail) (use a in auto)
  then show "snd run = snd (read_once (objectName c workerId) (rd k))"
    and "count_ev is_open (fst run) = k + 1"
    and "count_ev is_duration_line (fst run) = k"
    by (simp_all add: run_def ReadObject_def rd_def)
  then show "snd run \<noteq> None"
    using read_once_fail [of "rd k" "objectName c workerId"] a by simp
qed

theorem ReadObject_reads_witness:
  "count_ev is_open (fst (ReadObject default_config 0 (\<lambda>name k. ReadOk 5))) = 800
   \<and> count_ev is_duration_line (fst (ReadObject default_config 0 (\<lambda>name k. ReadOk 5))) = 800
   \<and> snd (ReadObject default_config 0 (\<lambda>name k. ReadOk 5)) = None
   \<and> snd (ReadObject default_config 0 second_read_fails)
       = Some ''while reading and discarding content: connection reset''
   \<and> count_ev is_open (fst (ReadObject default_config 0 second_read_fails)) = 2
   \<and> count_ev is_duration_line (fst (ReadObject default_config 0 second_read_fails)) = 1"
proof -
  have a: "\<forall>k. int k < NumOfReadCallPerWorker default_config \<longrightarrow>
             is_ok ((\<lambda>name k. ReadOk 5) (objectName default_config 0) k)"
    by simp
  have b: "int 1 < NumOfReadCallPerWorker default_config
      \<and> (\<forall>j<1. is_ok (second_read_fails (objectName default_config 0) j))
      \<and> \<not> is_ok (second_read_fails (objectName default_config 0) 1)"
    by (simp add: default_config_def second_read_fails_def)
  from ReadObject_reads [of default_config "\<lambda>name k. ReadOk 5" 0] a
  have 1: "snd (ReadObject default_config 0 (\<lambda>name k. ReadOk 5)) = None
      \<and> count_ev is_open (fst (ReadObject default_config 0 (\<lambda>name k. ReadOk 5))) = 800
      \<and> count_ev is_duration_line (fst (ReadObject default_config 0 (\<lambda>name k. ReadOk 5))) = 800"
    by (simp add: default_config_def)
  from ReadObject_reads [of default_config second_read_fails 0] b
  have 2: "snd (ReadObject default_config 0 second_read_fails)
        = snd (read_once (objectName default_config 0)
                 (second_read_fails (objectName default_config 0) 1))
      \<and> count_ev is_open (fst (ReadObject default_config 0 second_read_fails)) = 1 + 1
      \<and> count_ev is_duration_line (fst (ReadObject default_config 0 second_read_fails)) = 1"
    by blast
  from 1 2 show ?thesis
    by (simp add: read_once_def second_read_fails_def)
qed





text \<open>
  C9. As stated, the claim fails: the two variables are unset on return, not put
  back, so a process started with \<^verbatim>\<open>STORAGE_USE_GRPC\<close> set finds it gone after
  \<^verbatim>\<open>CreateGrpcClient\<close>, and its environment has changed.
\<close>

theorem CreateGrpcClient_environment_counterexample:
  "CreateGrpcClient default_config quiet_world [''STORAGE_USE_GRPC'' \<mapsto> ''gRPC'']
     = Ret (Map.empty, Some (Client (WithGRPCConnectionPool 1)), None)
   \<and> [''STORAGE_USE_GRPC'' \<mapsto> ''gRPC''] \<noteq> (Map.empty :: environ)"
  by (simp add: CreateGrpcClient_def os_Setenv_def os_Unsetenv_def quiet_world_def
      default_config_def)

text \<open>
  C9, amended. Whenever \<^verbatim>\<open>CreateGrpcClient\<close> returns, with a client or with an
  error, both transport-selection variables are unset and every other variable is as
  it was at the call; so the environment is unchanged by the call exactly when
  neither variable was set before it.
\<close>

theorem CreateGrpcClient_environment:
  assumes "CreateGrpcClient c w env = Ret (env', client, err)"
  shows "env' ''STORAGE_USE_GRPC'' = None
       \<and> env' ''GOOGLE_CLOUD_ENABLE_DIRECT_PATH_XDS'' = None
       \<and> (\<forall>k. k \<noteq> ''STORAGE_USE_GRPC'' \<and> k \<noteq> ''GOOGLE_CLOUD_ENABLE_DIRECT_PATH_XDS''
              \<longrightarrow> env' k = env k)
       \<and> (env' = env \<longleftrightarrow>
            env ''STORAGE_USE_GRPC'' = None \<and> env ''GOOGLE_CLOUD_ENABLE_DIRECT_PATH_XDS'' = None)"
proof -
  from assms
  have eq: "env' = env(''STORAGE_USE_GRPC'' := None, ''GOOGLE_CLOUD_ENABLE_DIRECT_PATH_XDS'' := None)"
    by (auto simp: CreateGrpcClient_def os_Setenv_def os_Unsetenv_def
          split: option.splits sum.splits prod.splits)
  have 1: "env' ''STORAGE_USE_GRPC'' = None"
    and 2: "env' ''GOOGLE_CLOUD_ENABLE_DIRECT_PATH_XDS'' = None"
    and 3: "\<forall>k. k \<noteq> ''STORAGE_USE_GRPC'' \<and> k \<noteq> ''GOOGLE_CLOUD_ENABLE_DIRECT_PATH_XDS''
              \<longrightarrow> env' k = env k"
    by (simp_all add: eq)
  have 4: "env' = env \<longleftrightarrow>
      env ''STORAGE_USE_GRPC'' = None \<and> env ''GOOGLE_CLOUD_ENABLE_DIRECT_PATH_XDS'' = None"
  proof
    assume "env' = env"
    with 1 2 show "env ''STORAGE_USE_GRPC'' = None \<and> env ''GOOGLE_CLOUD_ENABLE_DIRECT_PATH_XDS'' = None"
      by simp
  next
    assume "env ''STORAGE_USE_GRPC'' = None \<and> env ''GOOGLE_CLOUD_ENABLE_DIRECT_PATH_XDS'' = None"
    then show "env' = env"
      unfolding eq by (intro ext) simp
  qed
  from 1 2 3 4 show ?thesis by blast
qed

theorem CreateGrpcClient_environment_witness:
  "CreateGrpcClient default_config
      (quiet_world \<lparr> NewClient := (\<lambda>env opt. (None, Some ''dial failed'')) \<rparr>)
      [''HOME'' \<mapsto> ''/root'']
     = Ret ([''HOME'' \<mapsto> ''/root''], None, Some ''dial failed'')"
proof -
  obtain env' where r: "CreateGrpcClient default_config
      (quiet_world \<lparr> NewClient := (\<lambda>env opt. (None, Some ''dial failed'')) \<rparr>)
      [''HOME'' \<mapsto> ''/root'']
     = Ret (env', None, Some ''dial failed'')"
    by (simp add: CreateGrpcClient_def os_Setenv_def os_Unsetenv_def quiet_world_def)
  from CreateGrpcClient_environment [OF r] have "env' = [''HOME'' \<mapsto> ''/root'']"
    by simp
  with r show ?thesis by simp
qed

text \<open>
  C10. When client construction returns an error and a nil client, \<^verbatim>\<open>main\<close> does
  not stop: the check at lines 154-156 only builds a message, \<^verbatim>\<open>SetRetry\<close> is
  called on the nil pointer, and the process ends in a nil pointer dereference
  before anything else happens. A failing token source is such an input, since
  \<^verbatim>\<open>CreateHttpClient\<close> then returns \<^verbatim>\<open>nil\<close> and the error.
\<close>

theorem main_SetRetry_on_nil_client:
  assumes "create_client c w = Ret (env, None, Some e)"
  shows "main c w = ([EvSetRetry], NilPanic)"
  using assms by (simp add: main_def SetRetry_def)

theorem main_SetRetry_on_nil_client_witness:
  "create_client small_config (quiet_world \<lparr> GetTokenSource := Some ''no credentials'' \<rparr>)
     = Ret (Map.empty, None, Some ''while generating tokenSource, no credentials'')
   \<and> main small_config (quiet_world \<lparr> GetTokenSource := Some ''no credentials'' \<rparr>)
     = ([EvSetRetry], NilPanic)"
proof -
  have h: "create_client small_config (quiet_world \<lparr> GetTokenSource := Some ''no credentials'' \<rparr>)
     = Ret (Map.empty, None, Some ''while generating tokenSource, no credentials'')"
    by (simp add: create_client_def CreateHttpClient_def quiet_world_def)
  from main_SetRetry_on_nil_client [OF h] h show ?thesis by simp
qed

end
